theory Spec2Isabelle
  imports Complex_Main "HOL-Library.Sublist"
begin

section \<open>Crop planning optimizer: data model\<close>

text \<open>
  The development embeds \<^verbatim>\<open>optimization.py\<close> (class \<^verbatim>\<open>CropOptimizer\<close>) and the
  \<^verbatim>\<open>SolutionValidator\<close> of \<^verbatim>\<open>utils.py\<close>.

  Python \<^verbatim>\<open>str\<close> values whose content the code inspects (land types, crop categories,
  season labels, crop names) are lists of Unicode code points; the literals of the source
  are the constants below. Plot identifiers are strings that the code only compares.
  Python numbers (areas, yields, prices, penalties) are reals: rounding of floats is
  not modelled. Crop ids are Python ints.

  A Python \<^verbatim>\<open>dict\<close> that the code iterates is an association list in insertion order,
  with \<open>map_of\<close> as lookup and \<open>dict_set\<close> as item assignment; its keys are distinct.
  A dict that is only looked up is a map.
\<close>

type_synonym ustr = "nat list"
type_synonym plot_id = string

definition DOU_LEI :: ustr where \<comment> \<open>U+8C46 U+7C7B, the legume marker\<close>
  "DOU_LEI = [35910, 31867]"
definition LIANG_SHI :: ustr where \<comment> \<open>U+7CAE U+98DF, grain\<close>
  "LIANG_SHI = [31918, 39135]"
definition SHU_CAI :: ustr where \<comment> \<open>U+852C U+83DC, vegetable\<close>
  "SHU_CAI = [34092, 33756]"
definition LIANG_SHI_DOU_LEI :: ustr where \<comment> \<open>grain, fullwidth parenthesis, legume\<close>
  "LIANG_SHI_DOU_LEI = [31918, 39135, 65288, 35910, 31867, 65289]"
definition SHU_CAI_DOU_LEI :: ustr where \<comment> \<open>vegetable, fullwidth parenthesis, legume\<close>
  "SHU_CAI_DOU_LEI = [34092, 33756, 65288, 35910, 31867, 65289]"
definition DAN_JI :: ustr where \<comment> \<open>U+5355 U+5B63, single season\<close>
  "DAN_JI = [21333, 23395]"
definition DI_YI_JI :: ustr where \<comment> \<open>U+7B2C U+4E00 U+5B63, first season\<close>
  "DI_YI_JI = [31532, 19968, 23395]"
definition DI_ER_JI :: ustr where \<comment> \<open>U+7B2C U+4E8C U+5B63, second season\<close>
  "DI_ER_JI = [31532, 20108, 23395]"
definition PING_HAN_DI :: ustr where \<comment> \<open>open dry field\<close>
  "PING_HAN_DI = [24179, 26097, 22320]"
definition TI_TIAN :: ustr where \<comment> \<open>terraced field\<close>
  "TI_TIAN = [26799, 30000]"
definition SHAN_PO_DI :: ustr where \<comment> \<open>hillside field\<close>
  "SHAN_PO_DI = [23665, 22369, 22320]"
definition SHUI_JIAO_DI :: ustr where \<comment> \<open>irrigated field\<close>
  "SHUI_JIAO_DI = [27700, 27975, 22320]"
definition PU_TONG_DA_PENG :: ustr where \<comment> \<open>ordinary greenhouse\<close>
  "PU_TONG_DA_PENG = [26222, 36890, 22823, 26842]"
definition ZHI_HUI_DA_PENG :: ustr where \<comment> \<open>smart greenhouse\<close>
  "ZHI_HUI_DA_PENG = [26234, 24935, 22823, 26842]"
definition SHUI_DAO :: ustr where \<comment> \<open>U+6C34 U+7A3B, paddy rice\<close>
  "SHUI_DAO = [27700, 31291]"

text \<open>The loop header \<^verbatim>\<open>for season in [DAN_JI, DI_YI_JI, DI_ER_JI]\<close> of the penalty rules
  and of the validator.\<close>

definition SEASONS :: "ustr list" where
  "SEASONS = [DAN_JI, DI_YI_JI, DI_ER_JI]"

datatype error = KeyError | IndexError | ValueError

text \<open>Item assignment \<^verbatim>\<open>d[k] = v\<close>: an existing key keeps its position, a new key goes last.\<close>

fun dict_set :: "'k \<Rightarrow> 'v \<Rightarrow> ('k \<times> 'v) list \<Rightarrow> ('k \<times> 'v) list" where
  "dict_set k v [] = [(k, v)]"
| "dict_set k v ((k', v') # d) = (if k' = k then (k, v) # d else (k', v') # dict_set k v d)"

record land =
  ltype :: ustr
  larea :: real

record crop =
  cname :: ustr
  ctype :: ustr
  suitable_land :: ustr

record stats =
  yield_per_mu :: real
  cost_per_mu :: real
  min_price :: real
  max_price :: real

text \<open>What \<^verbatim>\<open>CropOptimizer.__init__\<close> receives from \<^verbatim>\<open>preprocess_data\<close>
  (\<^verbatim>\<open>planting_2023\<close> is not read by the optimizer).\<close>

record dataset =
  land_info :: "(plot_id \<times> land) list"
  crop_info :: "(int \<times> crop) list"
  stats_info :: "int \<times> ustr \<times> ustr \<rightharpoonup> stats"
  expected_sales :: "int \<rightharpoonup> real"

record cell =
  crop_id :: int
  crop_name :: ustr
  area :: real

type_synonym season_dict = "(ustr \<times> cell) list"
type_synonym year_dict = "(nat \<times> season_dict) list"
type_synonym plan = "(plot_id \<times> year_dict) list"

text \<open>\<^verbatim>\<open>range(n)\<close> for a Python int \<open>n\<close>: empty when \<open>n \<le> 0\<close>.\<close>

definition py_range :: "int \<Rightarrow> nat list" where
  "py_range n = [0..<nat n]"

text \<open>\<^verbatim>\<open>bean_crops\<close>, computed once by \<^verbatim>\<open>__init__\<close>: the crops whose category contains the
  legume marker (\<^verbatim>\<open>DOU_LEI in info['type']\<close> is substring containment).\<close>

definition bean_crops :: "dataset \<Rightarrow> int list" where
  "bean_crops ds = map fst (filter (\<lambda>(c, info). sublist DOU_LEI (ctype info)) (crop_info ds))"

section \<open>Fitness evaluator\<close>

text \<open>Lines 190 to 198 of \<^verbatim>\<open>_calculate_fitness\<close>: the revenue of one cell from its total
  yield, the mean price and the expected-sales entry of its crop, if any. Scenario 1 is
  the shortage scenario; every other scenario value takes the markdown branch.\<close>

definition revenue :: "int \<Rightarrow> real option \<Rightarrow> real \<Rightarrow> real \<Rightarrow> real" where
  "revenue scenario expected total_yield price =
     (case expected of
        Some e \<Rightarrow>
          if scenario = 1 then min total_yield e * price
          else min total_yield e * price + max 0 (total_yield - e) * price * (1 / 2)
      | None \<Rightarrow> total_yield * price)"

definition cell_revenue :: "dataset \<Rightarrow> ustr \<Rightarrow> int \<Rightarrow> ustr \<Rightarrow> cell \<Rightarrow> real" where
  "cell_revenue ds land_type scenario season c =
     (case stats_info ds (crop_id c, land_type, season) of
        None \<Rightarrow> 0
      | Some st \<Rightarrow>
          revenue scenario (expected_sales ds (crop_id c)) (yield_per_mu st * area c)
            ((min_price st + max_price st) / 2))"

text \<open>The body of the innermost loop: what one cell adds to \<^verbatim>\<open>total_profit\<close>
  (nothing when the statistics key is missing).\<close>

definition cell_profit :: "dataset \<Rightarrow> ustr \<Rightarrow> int \<Rightarrow> ustr \<Rightarrow> cell \<Rightarrow> real" where
  "cell_profit ds land_type scenario season c =
     (case stats_info ds (crop_id c, land_type, season) of
        None \<Rightarrow> 0
      | Some st \<Rightarrow> cell_revenue ds land_type scenario season c - cost_per_mu st * area c)"

definition plot_profit :: "dataset \<Rightarrow> ustr \<Rightarrow> int \<Rightarrow> year_dict \<Rightarrow> real" where
  "plot_profit ds land_type scenario d =
     (\<Sum>(year, sd) \<leftarrow> d. \<Sum>(season, c) \<leftarrow> sd. cell_profit ds land_type scenario season c)"

text \<open>The outer loop; \<^verbatim>\<open>self.land_info[land]\<close> raises \<^verbatim>\<open>KeyError\<close> for a plot that
  the dataset does not have.\<close>

fun total_profit :: "dataset \<Rightarrow> plan \<Rightarrow> int \<Rightarrow> error + real" where
  "total_profit ds [] scenario = Inr 0"
| "total_profit ds ((land, d) # rest) scenario =
     (case map_of (land_info ds) land of
        None \<Rightarrow> Inl KeyError
      | Some info \<Rightarrow>
          (case total_profit ds rest scenario of
             Inl e \<Rightarrow> Inl e
           | Inr p \<Rightarrow> Inr (plot_profit ds (ltype info) scenario d + p)))"

subsection \<open>Constraint penalty\<close>

text \<open>The cell at a year and a season, when
  \<^verbatim>\<open>year in solution[land] and season in solution[land][year]\<close>.\<close>

definition lookup_cell :: "year_dict \<Rightarrow> nat \<Rightarrow> ustr \<Rightarrow> cell option" where
  "lookup_cell d year season =
     (case map_of d year of None \<Rightarrow> None | Some sd \<Rightarrow> map_of sd season)"

text \<open>The cells that the nested loops over the given years and the three season labels
  visit, in the order of the visit.\<close>

definition scan_cells :: "year_dict \<Rightarrow> nat list \<Rightarrow> cell list" where
  "scan_cells d years =
     concat (map (\<lambda>year. List.map_filter (\<lambda>season. lookup_cell d year season) SEASONS) years)"

text \<open>Rule 1: the two \<^verbatim>\<open>break\<close>s leave the loops at the first legume cell.\<close>

definition bean_planted :: "dataset \<Rightarrow> year_dict \<Rightarrow> bool" where
  "bean_planted ds d =
     list_ex (\<lambda>c. crop_id c \<in> set (bean_crops ds)) (scan_cells d (py_range (int (length d))))"

definition rotation_penalty :: "dataset \<Rightarrow> plan \<Rightarrow> real" where
  "rotation_penalty ds solution =
     (\<Sum>(land, d) \<leftarrow> solution. if \<not> bean_planted ds d then 100000 else 0)"

text \<open>Rule 2: \<^verbatim>\<open>prev_crop\<close> starts as \<^verbatim>\<open>None\<close> for every plot.\<close>

fun replant_count :: "int option \<Rightarrow> cell list \<Rightarrow> nat" where
  "replant_count prev [] = 0"
| "replant_count prev (c # cs) =
     (if Some (crop_id c) = prev then 1 else 0) + replant_count (Some (crop_id c)) cs"

definition replant_penalty :: "plan \<Rightarrow> real" where
  "replant_penalty solution =
     (\<Sum>(land, d) \<leftarrow> solution.
        50000 * real (replant_count None (scan_cells d (py_range (int (length d))))))"

text \<open>Rule 3. \<^verbatim>\<open>crop_distribution\<close> maps a crop id to the set of plots that grow it in
  the stratum.\<close>

definition dist_add :: "int \<Rightarrow> plot_id \<Rightarrow> (int \<times> plot_id set) list \<Rightarrow> (int \<times> plot_id set) list" where
  "dist_add c l cd =
     (case map_of cd c of
        None \<Rightarrow> dict_set c {l} cd
      | Some lands \<Rightarrow> dict_set c (insert l lands) cd)"

fun crop_distribution :: "plan \<Rightarrow> nat \<Rightarrow> ustr \<Rightarrow> (int \<times> plot_id set) list \<Rightarrow> (int \<times> plot_id set) list" where
  "crop_distribution [] year season cd = cd"
| "crop_distribution ((land, d) # rest) year season cd =
     (case lookup_cell d year season of
        None \<Rightarrow> crop_distribution rest year season cd
      | Some c \<Rightarrow> crop_distribution rest year season (dist_add (crop_id c) land cd))"

definition lands_penalty :: "plot_id set \<Rightarrow> real" where
  "lands_penalty lands =
     (if card lands < 2 then 50000 * real (2 - card lands)
      else if card lands > 8 then 30000 * real (card lands - 8)
      else 0)"

definition stratum_penalty :: "plan \<Rightarrow> nat \<Rightarrow> ustr \<Rightarrow> real" where
  "stratum_penalty solution year season =
     (\<Sum>(c, lands) \<leftarrow> crop_distribution solution year season []. lands_penalty lands)"

text \<open>\<^verbatim>\<open>list(solution.keys())[0]\<close> raises \<^verbatim>\<open>IndexError\<close> when the plan has no plot; the
  years scanned are those of the first plot.\<close>

definition concentration_penalty :: "plan \<Rightarrow> error + real" where
  "concentration_penalty solution =
     (case solution of
        [] \<Rightarrow> Inl IndexError
      | (land0, d0) # _ \<Rightarrow>
          Inr (\<Sum>year \<leftarrow> py_range (int (length d0)). \<Sum>season \<leftarrow> SEASONS.
                 stratum_penalty solution year season))"

text \<open>Rule 4.\<close>

definition min_area_penalty :: "plan \<Rightarrow> real" where
  "min_area_penalty solution =
     (\<Sum>(land, d) \<leftarrow> solution. \<Sum>(year, sd) \<leftarrow> d. \<Sum>(season, c) \<leftarrow> sd.
        if area c < 1 / 2 then 20000 * (1 / 2 - area c) else 0)"

definition calculate_constraint_penalty :: "dataset \<Rightarrow> plan \<Rightarrow> error + real" where
  "calculate_constraint_penalty ds solution =
     (case concentration_penalty solution of
        Inl e \<Rightarrow> Inl e
      | Inr p3 \<Rightarrow>
          Inr (rotation_penalty ds solution + replant_penalty solution + p3
               + min_area_penalty solution))"

definition calculate_fitness :: "dataset \<Rightarrow> plan \<Rightarrow> int \<Rightarrow> error + real" where
  "calculate_fitness ds solution scenario =
     (case total_profit ds solution scenario of
        Inl e \<Rightarrow> Inl e
      | Inr profit \<Rightarrow>
          (case calculate_constraint_penalty ds solution of
             Inl e \<Rightarrow> Inl e
           | Inr penalty \<Rightarrow> Inr (profit - penalty)))"

section \<open>Solution validator\<close>

text \<open>\<^verbatim>\<open>validate_rotation\<close>: the scan of one plot. The category test is equality with one
  of two literals, and \<^verbatim>\<open>crop_info[crop_id]\<close> raises \<^verbatim>\<open>KeyError\<close> for an unknown crop.\<close>

fun bean_scan :: "(int \<times> crop) list \<Rightarrow> cell list \<Rightarrow> error + bool" where
  "bean_scan ci [] = Inr False"
| "bean_scan ci (c # cs) =
     (case map_of ci (crop_id c) of
        None \<Rightarrow> Inl KeyError
      | Some info \<Rightarrow>
          if ctype info \<in> set [LIANG_SHI_DOU_LEI, SHU_CAI_DOU_LEI] then Inr True
          else bean_scan ci cs)"

fun validate_rotation :: "plan \<Rightarrow> (int \<times> crop) list \<Rightarrow> int \<Rightarrow> error + bool" where
  "validate_rotation [] ci years = Inr True"
| "validate_rotation ((land, crops) # rest) ci years =
     (case bean_scan ci (scan_cells crops (py_range years)) of
        Inl e \<Rightarrow> Inl e
      | Inr found \<Rightarrow>
          if \<not> found then Inr False else validate_rotation rest ci years)"

text \<open>\<^verbatim>\<open>validate_concentration\<close>: one \<^verbatim>\<open>crop_distribution\<close> for the whole plan, filled over
  all plots, years and seasons, then compared with \<^verbatim>\<open>min_plots\<close> only.\<close>

definition pooled_distribution :: "plan \<Rightarrow> (int \<times> plot_id set) list" where
  "pooled_distribution solution =
     fold (\<lambda>(land, crops) cd.
             fold (\<lambda>c. dist_add (crop_id c) land)
               (scan_cells crops (py_range (int (length crops)))) cd)
       solution []"

definition validate_concentration :: "plan \<Rightarrow> int \<Rightarrow> bool" where
  "validate_concentration solution min_plots =
     (\<not> list_ex (\<lambda>(c, lands). int (card lands) < min_plots) (pooled_distribution solution))"

section \<open>Constructive generator\<close>

text \<open>
  The calls to \<^verbatim>\<open>random\<close> read a tape of naturals, one entry per call; an exhausted tape
  reads 0. \<^verbatim>\<open>random.choice(xs)\<close> takes the entry modulo the length (every element is
  chosen by some tape), \<^verbatim>\<open>random.random() < 0.5\<close> holds for an even entry,
  \<^verbatim>\<open>random.randint(0, n - 1)\<close> takes the entry modulo \<open>n\<close> and raises \<^verbatim>\<open>ValueError\<close>
  for \<open>n = 0\<close>, \<^verbatim>\<open>random.sample(xs, k)\<close> draws \<open>k\<close> times without replacement.
\<close>

type_synonym tape = "nat list"

definition next_rand :: "tape \<Rightarrow> nat \<times> tape" where
  "next_rand t = (case t of [] \<Rightarrow> (0, []) | r # rs \<Rightarrow> (r, rs))"

definition random_choice :: "'a list \<Rightarrow> tape \<Rightarrow> 'a \<times> tape" where
  "random_choice xs t = (case next_rand t of (r, t') \<Rightarrow> (xs ! (r mod length xs), t'))"

definition random_lt_half :: "tape \<Rightarrow> bool \<times> tape" where
  "random_lt_half t = (case next_rand t of (r, t') \<Rightarrow> (even r, t'))"

definition random_randint0 :: "nat \<Rightarrow> tape \<Rightarrow> error + nat \<times> tape" where
  "random_randint0 n t =
     (if n = 0 then Inl ValueError
      else (case next_rand t of (r, t') \<Rightarrow> Inr (r mod n, t')))"

text \<open>The source calls \<^verbatim>\<open>random.sample\<close> with \<open>k = min(5, len(xs))\<close> only, so the
  population never runs out before \<open>k\<close> draws.\<close>

fun random_sample :: "'a list \<Rightarrow> nat \<Rightarrow> tape \<Rightarrow> 'a list \<times> tape" where
  "random_sample xs 0 t = ([], t)"
| "random_sample xs (Suc k) t =
     (if xs = [] then ([], t)
      else (case next_rand t of (r, t1) \<Rightarrow>
              (case random_sample (take (r mod length xs) xs @ drop (Suc (r mod length xs)) xs) k t1 of
                 (rest, t2) \<Rightarrow> (xs ! (r mod length xs) # rest, t2))))"

text \<open>The candidate lists, as lists of the items of \<^verbatim>\<open>crop_info\<close> (the source lists the
  keys and looks the name up again under the chosen key).\<close>

definition grain_crops :: "dataset \<Rightarrow> (int \<times> crop) list" where
  "grain_crops ds = filter (\<lambda>(c, info). sublist LIANG_SHI (ctype info)) (crop_info ds)"

definition veg_crops :: "dataset \<Rightarrow> (int \<times> crop) list" where
  "veg_crops ds =
     filter (\<lambda>(c, info). ctype info = SHU_CAI \<and> c \<notin> set [37, 38, 39]) (crop_info ds)"

definition crops_present :: "dataset \<Rightarrow> int list \<Rightarrow> (int \<times> crop) list" where
  "crops_present ds ids =
     List.map_filter (\<lambda>c. map_option (Pair c) (map_of (crop_info ds) c)) ids"

definition second_crops :: "dataset \<Rightarrow> (int \<times> crop) list" where
  "second_crops ds = crops_present ds [37, 38, 39]"

definition mushroom_crops :: "dataset \<Rightarrow> (int \<times> crop) list" where
  "mushroom_crops ds = crops_present ds [40, 41, 42, 43]"

text \<open>\<^verbatim>\<open>if cands: crop_id = random.choice(cands); cells[season] = {...}\<close>\<close>

definition plant :: "(int \<times> crop) list \<Rightarrow> ustr \<Rightarrow> real \<Rightarrow> season_dict \<times> tape \<Rightarrow> season_dict \<times> tape" where
  "plant cands season a st =
     (case st of (sd, t) \<Rightarrow>
        if cands = [] then (sd, t)
        else (case random_choice cands t of
                ((c, info), t') \<Rightarrow>
                  (dict_set season \<lparr>crop_id = c, crop_name = cname info, area = a\<rparr> sd, t')))"

text \<open>The cells of one plot and year, by land type: lines 92 to 164 of
  \<^verbatim>\<open>_generate_initial_solution\<close> and, word for word, lines 294 to 358 of
  \<^verbatim>\<open>_simple_local_search\<close>. The single-season rice cell of an irrigated plot has the
  literal crop id 18.\<close>

definition regenerate :: "dataset \<Rightarrow> ustr \<Rightarrow> real \<Rightarrow> tape \<Rightarrow> season_dict \<times> tape" where
  "regenerate ds land_type a t =
     (if land_type \<in> set [PING_HAN_DI, TI_TIAN, SHAN_PO_DI] then
        plant (grain_crops ds) DAN_JI a ([], t)
      else if land_type = SHUI_JIAO_DI then
        (case random_lt_half t of
           (b, t1) \<Rightarrow>
             if b then ([(DAN_JI, \<lparr>crop_id = 18, crop_name = SHUI_DAO, area = a\<rparr>)], t1)
             else plant (second_crops ds) DI_ER_JI a (plant (veg_crops ds) DI_YI_JI a ([], t1)))
      else if land_type = PU_TONG_DA_PENG then
        plant (mushroom_crops ds) DI_ER_JI a (plant (veg_crops ds) DI_YI_JI a ([], t))
      else if land_type = ZHI_HUI_DA_PENG then
        plant (veg_crops ds) DI_ER_JI a (plant (veg_crops ds) DI_YI_JI a ([], t))
      else ([], t))"

fun gen_years :: "dataset \<Rightarrow> ustr \<Rightarrow> real \<Rightarrow> nat list \<Rightarrow> tape \<Rightarrow> year_dict \<times> tape" where
  "gen_years ds land_type a [] t = ([], t)"
| "gen_years ds land_type a (year # years) t =
     (case regenerate ds land_type a t of
        (sd, t1) \<Rightarrow>
          (case gen_years ds land_type a years t1 of
             (rest, t2) \<Rightarrow> ((year, sd) # rest, t2)))"

fun gen_lands :: "dataset \<Rightarrow> (plot_id \<times> land) list \<Rightarrow> int \<Rightarrow> tape \<Rightarrow> plan \<times> tape" where
  "gen_lands ds [] years t = ([], t)"
| "gen_lands ds ((land, info) # lands) years t =
     (case gen_years ds (ltype info) (larea info) (py_range years) t of
        (d, t1) \<Rightarrow>
          (case gen_lands ds lands years t1 of
             (rest, t2) \<Rightarrow> ((land, d) # rest, t2)))"

definition generate_initial_solution :: "dataset \<Rightarrow> int \<Rightarrow> tape \<Rightarrow> plan" where
  "generate_initial_solution ds years t = fst (gen_lands ds (land_info ds) years t)"

section \<open>Local search\<close>

text \<open>
  \<^verbatim>\<open>dict.copy()\<close> copies the outer dict only: the copy maps every plot to the same year
  dict object as the original. So a plan is here a list of plots with the addresses of
  their year dicts, and a store gives the year dict at an address. The assignment
  \<^verbatim>\<open>test_solution[land][year] = {}\<close> and the cell assignments after it write to the
  store at the address of the plot; the outer dicts are never written to, so
  \<^verbatim>\<open>solution\<close>, \<^verbatim>\<open>best_solution\<close> and \<^verbatim>\<open>test_solution\<close> are the same list of addresses.
\<close>

type_synonym addr = nat
type_synonym heap = "addr \<Rightarrow> year_dict"
type_synonym plan_ref = "(plot_id \<times> addr) list"

definition deref :: "heap \<Rightarrow> plan_ref \<Rightarrow> plan" where
  "deref h p = map (\<lambda>(land, a). (land, h a)) p"

text \<open>One pass of the body of \<^verbatim>\<open>for land in lands_to_modify\<close>, up to the new fitness.\<close>

definition trial :: "dataset \<Rightarrow> int \<Rightarrow> plan_ref \<Rightarrow> heap \<Rightarrow> plot_id \<times> addr \<Rightarrow> tape
    \<Rightarrow> error + heap \<times> real \<times> tape" where
  "trial ds scenario best h la t =
     (case la of (land, a) \<Rightarrow>
        (case random_randint0 (length (h a)) t of
           Inl e \<Rightarrow> Inl e
         | Inr (year, t1) \<Rightarrow>
             (case map_of (land_info ds) land of
                None \<Rightarrow> Inl KeyError
              | Some info \<Rightarrow>
                  (case regenerate ds (ltype info) (larea info) t1 of
                     (sd, t2) \<Rightarrow>
                       (case calculate_fitness ds
                               (deref (h(a := dict_set year sd (h a))) best) scenario of
                          Inl e \<Rightarrow> Inl e
                        | Inr new_fitness \<Rightarrow>
                            Inr (h(a := dict_set year sd (h a)), new_fitness, t2))))))"

text \<open>The \<^verbatim>\<open>for\<close> loop with its \<^verbatim>\<open>break\<close>: the result is the store, \<^verbatim>\<open>best_fitness\<close>,
  \<^verbatim>\<open>improved\<close> and the tape.\<close>

fun try_lands :: "dataset \<Rightarrow> int \<Rightarrow> plan_ref \<Rightarrow> heap \<Rightarrow> real \<Rightarrow> (plot_id \<times> addr) list \<Rightarrow> tape
    \<Rightarrow> error + heap \<times> real \<times> bool \<times> tape" where
  "try_lands ds scenario best h best_fitness [] t = Inr (h, best_fitness, False, t)"
| "try_lands ds scenario best h best_fitness (la # las) t =
     (case trial ds scenario best h la t of
        Inl e \<Rightarrow> Inl e
      | Inr (h', new_fitness, t') \<Rightarrow>
          if new_fitness > best_fitness then Inr (h', new_fitness, True, t')
          else try_lands ds scenario best h' best_fitness las t')"

text \<open>The \<^verbatim>\<open>while improved and iterations < max_iterations\<close> loop; the first argument is
  the number of iterations left.\<close>

fun search_loop :: "nat \<Rightarrow> dataset \<Rightarrow> int \<Rightarrow> plan_ref \<Rightarrow> heap \<Rightarrow> real \<Rightarrow> tape
    \<Rightarrow> error + heap \<times> real" where
  "search_loop 0 ds scenario best h best_fitness t = Inr (h, best_fitness)"
| "search_loop (Suc n) ds scenario best h best_fitness t =
     (case random_sample best (min 5 (length best)) t of
        (lands_to_modify, t1) \<Rightarrow>
          (case try_lands ds scenario best h best_fitness lands_to_modify t1 of
             Inl e \<Rightarrow> Inl e
           | Inr (h', best_fitness', improved, t2) \<Rightarrow>
               if improved then search_loop n ds scenario best h' best_fitness' t2
               else Inr (h', best_fitness')))"

text \<open>The search with its iteration cap as a parameter: the returned plan (the addresses
  of \<^verbatim>\<open>best_solution\<close>), the final store and the final \<^verbatim>\<open>best_fitness\<close>.\<close>

definition local_search :: "nat \<Rightarrow> dataset \<Rightarrow> plan_ref \<Rightarrow> int \<Rightarrow> heap \<Rightarrow> tape
    \<Rightarrow> error + plan_ref \<times> heap \<times> real" where
  "local_search max_iterations ds solution scenario h t =
     (case calculate_fitness ds (deref h solution) scenario of
        Inl e \<Rightarrow> Inl e
      | Inr best_fitness \<Rightarrow>
          (case search_loop max_iterations ds scenario solution h best_fitness t of
             Inl e \<Rightarrow> Inl e
           | Inr (h', best_fitness') \<Rightarrow> Inr (solution, h', best_fitness')))"

definition simple_local_search :: "dataset \<Rightarrow> plan_ref \<Rightarrow> int \<Rightarrow> heap \<Rightarrow> tape
    \<Rightarrow> error + plan_ref \<times> heap \<times> real" where
  "simple_local_search = local_search 100"

section \<open>Properties of plans\<close>

text \<open>All cells of a plot, whatever their year and season keys.\<close>

definition all_cells :: "year_dict \<Rightarrow> cell list" where
  "all_cells d = concat (map (\<lambda>(year, sd). map snd sd) d)"

text \<open>A crop is a legume when the dataset has it with a category tag that contains the
  legume marker; a plot has zero legume cells when none of its cells plants one.\<close>

definition is_legume :: "dataset \<Rightarrow> int \<Rightarrow> bool" where
  "is_legume ds c = list_ex (\<lambda>(c', info). c' = c \<and> sublist DOU_LEI (ctype info)) (crop_info ds)"

definition legume_free :: "dataset \<Rightarrow> year_dict \<Rightarrow> bool" where
  "legume_free ds d = (\<not> list_ex (\<lambda>c. is_legume ds (crop_id c)) (all_cells d))"

text \<open>The plan invariant that every crop id of a cell is a key of \<^verbatim>\<open>crop_info\<close>.\<close>

definition crops_known :: "dataset \<Rightarrow> plan \<Rightarrow> bool" where
  "crops_known ds solution =
     list_all (\<lambda>(land, d). list_all (\<lambda>c. crop_id c \<in> fst ` set (crop_info ds)) (all_cells d))
       solution"



text \<open>The plots that grow a crop in a (year, season) stratum of a plan.\<close>

definition plots_growing :: "plan \<Rightarrow> nat \<Rightarrow> ustr \<Rightarrow> int \<Rightarrow> plot_id set" where
  "plots_growing solution year season c =
     fst ` set (filter (\<lambda>(land, d). case lookup_cell d year season of
                                         None \<Rightarrow> False
                                       | Some cl \<Rightarrow> crop_id cl = c) solution)"


definition same_years :: "nat \<Rightarrow> plan \<Rightarrow> bool" where
  "same_years n solution = list_all (\<lambda>(land, d). length d = n) solution"

text \<open>The (crop, plot) pairs in the order in which the scan of a stratum, and the scan
  of the validator, add them to \<^verbatim>\<open>crop_distribution\<close>; the plots paired with a crop.\<close>

definition stratum_pairs :: "plan \<Rightarrow> nat \<Rightarrow> ustr \<Rightarrow> (int \<times> plot_id) list" where
  "stratum_pairs solution year season =
     List.map_filter
       (\<lambda>(land, d). map_option (\<lambda>cl. (crop_id cl, land)) (lookup_cell d year season))
       solution"

definition pooled_pairs :: "plan \<Rightarrow> (int \<times> plot_id) list" where
  "pooled_pairs solution =
     concat (map (\<lambda>(land, d). map (\<lambda>cl. (crop_id cl, land))
                                  (scan_cells d (py_range (int (length d))))) solution)"

definition lands_of :: "(int \<times> plot_id) list \<Rightarrow> int \<Rightarrow> plot_id set" where
  "lands_of pairs c = snd ` set (filter (\<lambda>(c', l). c' = c) pairs)"

section \<open>Concrete data\<close>

text \<open>The end-to-end scenario: one irrigated plot of area 10, one grain-legume crop
  (id 1) with yield 500 and cost 200 per area unit, price band 2 to 3, expected sales
  6000, and the plan that plants the crop single-season on the whole plot in year 0.\<close>

definition scenario_dataset :: dataset where
  "scenario_dataset =
     \<lparr>land_info = [(''A1'', \<lparr>ltype = SHUI_JIAO_DI, larea = 10\<rparr>)],
      crop_info = [(1, \<lparr>cname = [40644, 35910], ctype = LIANG_SHI_DOU_LEI,
                        suitable_land = SHUI_JIAO_DI\<rparr>)],
      stats_info = [(1, SHUI_JIAO_DI, DAN_JI) \<mapsto>
                      \<lparr>yield_per_mu = 500, cost_per_mu = 200, min_price = 2, max_price = 3\<rparr>],
      expected_sales = [1 \<mapsto> 6000]\<rparr>"

definition scenario_cell :: cell where
  "scenario_cell = \<lparr>crop_id = 1, crop_name = [40644, 35910], area = 10\<rparr>"

definition scenario_plan :: plan where
  "scenario_plan = [(''A1'', [(0, [(DAN_JI, scenario_cell)])])]"

text \<open>The same dataset with expected sales 3000, below the yield 5000 of the cell.\<close>

definition excess_dataset :: dataset where
  "excess_dataset = scenario_dataset\<lparr>expected_sales := [1 \<mapsto> 3000]\<rparr>"

text \<open>Two hillside plots and two grain crops, soybean (1, a grain legume) and wheat (6).\<close>

definition hill_dataset :: dataset where
  "hill_dataset =
     \<lparr>land_info = [(''C1'', \<lparr>ltype = SHAN_PO_DI, larea = 1\<rparr>),
                  (''C2'', \<lparr>ltype = SHAN_PO_DI, larea = 1\<rparr>)],
      crop_info = [(1, \<lparr>cname = [40644, 35910], ctype = LIANG_SHI_DOU_LEI,
                        suitable_land = SHAN_PO_DI\<rparr>),
                   (6, \<lparr>cname = [23567, 40614], ctype = LIANG_SHI,
                        suitable_land = SHAN_PO_DI\<rparr>)],
      stats_info = [(1, SHAN_PO_DI, DAN_JI) \<mapsto>
                      \<lparr>yield_per_mu = 100, cost_per_mu = 10, min_price = 2, max_price = 2\<rparr>,
                    (6, SHAN_PO_DI, DAN_JI) \<mapsto>
                      \<lparr>yield_per_mu = 10, cost_per_mu = 10, min_price = 2, max_price = 2\<rparr>],
      expected_sales = Map.empty\<rparr>"

definition soy_cell :: cell where
  "soy_cell = \<lparr>crop_id = 1, crop_name = [40644, 35910], area = 1\<rparr>"

definition wheat_cell :: cell where
  "wheat_cell = \<lparr>crop_id = 6, crop_name = [23567, 40614], area = 1\<rparr>"

text \<open>Soybean on the first plot, wheat on the second, one year.\<close>

definition hill_plan :: plan where
  "hill_plan = [(''C1'', [(0, [(DAN_JI, soy_cell)])]), (''C2'', [(0, [(DAN_JI, wheat_cell)])])]"

text \<open>The plan of two plots with one single-season cell each in year 0.\<close>

definition two_plots :: "cell \<Rightarrow> cell \<Rightarrow> plan" where
  "two_plots c1 c2 = [(''C1'', [(0, [(DAN_JI, c1)])]), (''C2'', [(0, [(DAN_JI, c2)])])]"

text \<open>The input of the local search: soybean on both plots, the year dicts at the
  addresses 0 and 2. The two stores after it are those after the trial on the first plot
  and after the trial on the second plot, each of which draws wheat.\<close>

definition hill_ref :: plan_ref where
  "hill_ref = [(''C1'', 0), (''C2'', 2)]"

definition hill_heap :: heap where
  "hill_heap = (\<lambda>a. [])(0 := [(0, [(DAN_JI, soy_cell)])], 2 := [(0, [(DAN_JI, soy_cell)])])"

definition hill_heap1 :: heap where
  "hill_heap1 = hill_heap(0 := [(0, [(DAN_JI, wheat_cell)])])"

definition hill_heap2 :: heap where
  "hill_heap2 = hill_heap1(2 := [(0, [(DAN_JI, wheat_cell)])])"

text \<open>One irrigated plot and two vegetables, 20 and 37; the dataset has no crop 18.\<close>

definition water_dataset :: dataset where
  "water_dataset =
     \<lparr>land_info = [(''D1'', \<lparr>ltype = SHUI_JIAO_DI, larea = 10\<rparr>)],
      crop_info = [(20, \<lparr>cname = [22303, 35910], ctype = SHU_CAI,
                         suitable_land = SHUI_JIAO_DI\<rparr>),
                   (37, \<lparr>cname = [22823, 30333, 33756], ctype = SHU_CAI,
                         suitable_land = SHUI_JIAO_DI\<rparr>)],
      stats_info = Map.empty,
      expected_sales = Map.empty\<rparr>"

definition rice_cell :: cell where
  "rice_cell = \<lparr>crop_id = 18, crop_name = SHUI_DAO, area = 10\<rparr>"

definition rice_plan :: plan where
  "rice_plan = [(''D1'', [(0, [(DAN_JI, rice_cell)])])]"


text \<open>Two hillside plots over two years: soybean then wheat on the first, wheat then
  soybean on the second.\<close>

definition swap_plan :: plan where
  "swap_plan =
     [(''C1'', [(0, [(DAN_JI, soy_cell)]), (1, [(DAN_JI, wheat_cell)])]),
      (''C2'', [(0, [(DAN_JI, wheat_cell)]), (1, [(DAN_JI, soy_cell)])])]"

text \<open>One hillside plot and one crop (id 1) whose category tag is that of a grain legume
  written with the ASCII parentheses U+0028 and U+0029 instead of the fullwidth ones: it
  contains the grain marker and the legume marker and equals neither literal of
  \<^verbatim>\<open>validate_rotation\<close>. The plan is the one the generator builds for one year.\<close>

definition paren_dataset :: dataset where
  "paren_dataset =
     \<lparr>land_info = [(''C1'', \<lparr>ltype = SHAN_PO_DI, larea = 1\<rparr>)],
      crop_info = [(1, \<lparr>cname = [40644, 35910],
                        ctype = [31918, 39135, 40, 35910, 31867, 41],
                        suitable_land = SHAN_PO_DI\<rparr>)],
      stats_info = Map.empty,
      expected_sales = Map.empty\<rparr>"

definition paren_plan :: plan where
  "paren_plan = [(''C1'', [(0, [(DAN_JI, soy_cell)])])]"

section \<open>Basic facts\<close>

lemmas ustr_defs = DOU_LEI_def LIANG_SHI_def SHU_CAI_def LIANG_SHI_DOU_LEI_def
  SHU_CAI_DOU_LEI_def DAN_JI_def DI_YI_JI_def DI_ER_JI_def PING_HAN_DI_def TI_TIAN_def
  SHAN_PO_DI_def SHUI_JIAO_DI_def PU_TONG_DA_PENG_def ZHI_HUI_DA_PENG_def SHUI_DAO_def

lemma seasons_distinct [simp]:
  "DAN_JI \<noteq> DI_YI_JI" "DAN_JI \<noteq> DI_ER_JI" "DI_YI_JI \<noteq> DI_ER_JI"
  "DI_YI_JI \<noteq> DAN_JI" "DI_ER_JI \<noteq> DAN_JI" "DI_ER_JI \<noteq> DI_YI_JI"
  by (simp_all add: ustr_defs)

lemma scan_cells_Nil [simp]: "scan_cells d [] = []"
  by (simp add: scan_cells_def)

lemma scan_cells_single:
  "scan_cells [(0, [(DAN_JI, c)])] (py_range 1) = [c]"
  by (simp add: scan_cells_def py_range_def SEASONS_def List.map_filter_simps lookup_cell_def)

section \<open>Revenue under the two scenarios\<close>

lemma revenue_mono:
  assumes "0 \<le> price"
  shows "revenue 1 expected total_yield price \<le> revenue scenario expected total_yield price"
proof (cases expected)
  case None
  then show ?thesis by (simp add: revenue_def)
next
  case (Some e)
  have "0 \<le> max 0 (total_yield - e) * price * (1 / 2)"
    using assms by simp
  with Some show ?thesis by (simp add: revenue_def)
qed

lemma cell_revenue_mono:
  assumes "\<forall>k st. stats_info ds k = Some st \<longrightarrow> 0 \<le> min_price st + max_price st"
  shows "cell_revenue ds lt 1 season c \<le> cell_revenue ds lt scenario season c"
proof (cases "stats_info ds (crop_id c, lt, season)")
  case None
  then show ?thesis by (simp add: cell_revenue_def)
next
  case (Some st)
  with assms have "0 \<le> (min_price st + max_price st) / 2" by simp
  from revenue_mono[OF this] Some show ?thesis by (simp add: cell_revenue_def)
qed

lemma cell_profit_diff:
  "cell_profit ds lt scenario season c - cell_profit ds lt 1 season c
     = cell_revenue ds lt scenario season c - cell_revenue ds lt 1 season c"
  by (simp add: cell_profit_def cell_revenue_def split: option.splits)

lemma cell_profit_mono:
  assumes "\<forall>k st. stats_info ds k = Some st \<longrightarrow> 0 \<le> min_price st + max_price st"
  shows "cell_profit ds lt 1 season c \<le> cell_profit ds lt scenario season c"
  using cell_revenue_mono[OF assms, of lt season c scenario] cell_profit_diff[of ds lt scenario season c]
  by linarith

lemma plot_profit_mono:
  assumes "\<forall>k st. stats_info ds k = Some st \<longrightarrow> 0 \<le> min_price st + max_price st"
  shows "plot_profit ds lt 1 d \<le> plot_profit ds lt scenario d"
  unfolding plot_profit_def
  by (intro sum_list_mono) (auto intro!: sum_list_mono cell_profit_mono[OF assms])

lemma total_profit_mono:
  assumes "\<forall>k st. stats_info ds k = Some st \<longrightarrow> 0 \<le> min_price st + max_price st"
  shows "(\<exists>a b. total_profit ds p 1 = Inr a \<and> total_profit ds p scenario = Inr b \<and> a \<le> b)
       \<or> (\<exists>e. total_profit ds p 1 = Inl e \<and> total_profit ds p scenario = Inl e)"
proof (induction p)
  case Nil
  then show ?case by simp
next
  case (Cons x p)
  obtain land d where x: "x = (land, d)" by (cases x)
  show ?case
  proof (cases "map_of (land_info ds) land")
    case None
    with x show ?thesis by simp
  next
    case (Some info)
    from Cons.IH show ?thesis
    proof
      assume "\<exists>a b. total_profit ds p 1 = Inr a \<and> total_profit ds p scenario = Inr b \<and> a \<le> b"
      then obtain a b where ab: "total_profit ds p 1 = Inr a"
        "total_profit ds p scenario = Inr b" "a \<le> b" by blast
      from plot_profit_mono[OF assms, of "ltype info" d scenario] ab x Some
      show ?thesis by simp
    next
      assume "\<exists>e. total_profit ds p 1 = Inl e \<and> total_profit ds p scenario = Inl e"
      with x Some show ?thesis by auto
    qed
  qed
qed

lemma fitness_mono:
  assumes "\<forall>k st. stats_info ds k = Some st \<longrightarrow> 0 \<le> min_price st + max_price st"
  shows "(\<exists>a b. calculate_fitness ds p 1 = Inr a \<and> calculate_fitness ds p scenario = Inr b \<and> a \<le> b)
       \<or> (\<exists>e. calculate_fitness ds p 1 = Inl e \<and> calculate_fitness ds p scenario = Inl e)"
  using total_profit_mono[OF assms, of p scenario]
  by (cases "calculate_constraint_penalty ds p") (auto simp: calculate_fitness_def)

text \<open>
  Claim C3. With a non-negative mean price in every statistics entry, the revenue of a
  cell under the markdown scenario (any scenario value other than 1) is at least its
  revenue under the shortage scenario (scenario 1), for the same crop, land type, season,
  area and expected-sales entry. The cost of a cell does not depend on the scenario, so
  the difference of the profits is the difference of the revenues, and the total profit
  and the fitness of a plan under markdown are at least those under shortage; the two
  evaluations raise the same error when they raise one. The price hypothesis is what the
  loader provides: it splits the price band at the minus sign, so neither bound it parses
  carries a sign.
\<close>

theorem markdown_ge_shortage:
  assumes "\<forall>k st. stats_info ds k = Some st \<longrightarrow> 0 \<le> min_price st + max_price st"
  shows "cell_revenue ds lt 1 season c \<le> cell_revenue ds lt scenario season c
       \<and> cell_profit ds lt scenario season c - cell_profit ds lt 1 season c
           = cell_revenue ds lt scenario season c - cell_revenue ds lt 1 season c
       \<and> ((\<exists>a b. total_profit ds p 1 = Inr a \<and> total_profit ds p scenario = Inr b \<and> a \<le> b)
          \<or> (\<exists>e. total_profit ds p 1 = Inl e \<and> total_profit ds p scenario = Inl e))
       \<and> ((\<exists>a b. calculate_fitness ds p 1 = Inr a \<and> calculate_fitness ds p scenario = Inr b \<and> a \<le> b)
          \<or> (\<exists>e. calculate_fitness ds p 1 = Inl e \<and> calculate_fitness ds p scenario = Inl e))"
  using cell_revenue_mono[OF assms] cell_profit_diff total_profit_mono[OF assms]
    fitness_mono[OF assms]
  by blast

lemma excess_prices:
  "\<forall>k st. stats_info excess_dataset k = Some st \<longrightarrow> 0 \<le> min_price st + max_price st"
  by (simp add: excess_dataset_def scenario_dataset_def)

lemma excess_cell_revenue:
  "cell_revenue excess_dataset SHUI_JIAO_DI 1 DAN_JI scenario_cell = 7500"
  "cell_revenue excess_dataset SHUI_JIAO_DI 2 DAN_JI scenario_cell = 10000"
  by (simp_all add: cell_revenue_def revenue_def excess_dataset_def scenario_dataset_def
      scenario_cell_def)

theorem markdown_ge_shortage_witness:
  "cell_revenue excess_dataset SHUI_JIAO_DI 1 DAN_JI scenario_cell = 7500
   \<and> cell_revenue excess_dataset SHUI_JIAO_DI 2 DAN_JI scenario_cell = 10000
   \<and> cell_revenue excess_dataset SHUI_JIAO_DI 1 DAN_JI scenario_cell
       \<le> cell_revenue excess_dataset SHUI_JIAO_DI 2 DAN_JI scenario_cell
   \<and> ((\<exists>a b. calculate_fitness excess_dataset scenario_plan 1 = Inr a
            \<and> calculate_fitness excess_dataset scenario_plan 2 = Inr b \<and> a \<le> b)
      \<or> (\<exists>e. calculate_fitness excess_dataset scenario_plan 1 = Inl e
            \<and> calculate_fitness excess_dataset scenario_plan 2 = Inl e))"
  using markdown_ge_shortage[OF excess_prices, of SHUI_JIAO_DI DAN_JI scenario_cell 2 scenario_plan]
    excess_cell_revenue
  by blast

section \<open>The end-to-end scenario\<close>

lemma scenario_bean_crops: "bean_crops scenario_dataset = [1]"
  by (simp add: bean_crops_def scenario_dataset_def ustr_defs sublist_Cons_right prefix_code)

lemma scenario_profit: "total_profit scenario_dataset scenario_plan scenario = Inr 10500"
  by (simp add: scenario_dataset_def scenario_plan_def scenario_cell_def plot_profit_def
      cell_profit_def cell_revenue_def revenue_def)

lemma scenario_rotation: "rotation_penalty scenario_dataset scenario_plan = 0"
  using scan_cells_single
  by (simp add: rotation_penalty_def bean_planted_def scenario_bean_crops scenario_plan_def
      scenario_cell_def)

lemma scenario_replant: "replant_penalty scenario_plan = 0"
  using scan_cells_single by (simp add: replant_penalty_def scenario_plan_def)

lemma scenario_concentration: "concentration_penalty scenario_plan = Inr 50000"
  by (simp add: concentration_penalty_def scenario_plan_def py_range_def SEASONS_def
      stratum_penalty_def lookup_cell_def dist_add_def lands_penalty_def)

lemma scenario_min_area: "min_area_penalty scenario_plan = 0"
  by (simp add: min_area_penalty_def scenario_plan_def scenario_cell_def)

lemma scenario_penalty: "calculate_constraint_penalty scenario_dataset scenario_plan = Inr 50000"
  by (simp add: calculate_constraint_penalty_def scenario_concentration scenario_rotation
      scenario_replant scenario_min_area)

text \<open>
  Claim C4, as amended. In the end-to-end scenario the profit is 10500 under both
  scenarios (revenue 12500, cost 2000), the rotation, replant and minimum-area rules add
  nothing, and the concentration rule adds 50000, because the crop grows on one plot and
  the rule asks for two: the fitness is 10500 - 50000 = -39500 under both scenarios.
\<close>

theorem scenario_fitness:
  "total_profit scenario_dataset scenario_plan scenario = Inr 10500
   \<and> cell_revenue scenario_dataset SHUI_JIAO_DI scenario DAN_JI scenario_cell = 12500
   \<and> rotation_penalty scenario_dataset scenario_plan = 0
   \<and> replant_penalty scenario_plan = 0
   \<and> min_area_penalty scenario_plan = 0
   \<and> concentration_penalty scenario_plan = Inr 50000
   \<and> calculate_fitness scenario_dataset scenario_plan scenario = Inr (- 39500)"
  by (simp add: calculate_fitness_def scenario_profit scenario_penalty scenario_rotation
      scenario_replant scenario_min_area scenario_concentration)
    (simp add: cell_revenue_def revenue_def scenario_dataset_def scenario_cell_def)

text \<open>The fitness of the scenario is not 10500, under either scenario.\<close>

theorem scenario_fitness_counterexample:
  "calculate_fitness scenario_dataset scenario_plan 1 \<noteq> Inr 10500
   \<and> calculate_fitness scenario_dataset scenario_plan 2 \<noteq> Inr 10500"
  by (simp add: calculate_fitness_def scenario_profit scenario_penalty)

section \<open>Totality of the fitness evaluator\<close>

lemma total_profit_defined:
  assumes "fst ` set solution \<subseteq> fst ` set (land_info ds)"
  shows "\<exists>v. total_profit ds solution scenario = Inr v"
  using assms
proof (induction solution)
  case Nil
  then show ?case by simp
next
  case (Cons x solution)
  obtain land d where x: "x = (land, d)" by (cases x)
  from Cons.prems x have "land \<in> fst ` set (land_info ds)" by simp
  then obtain info where info: "map_of (land_info ds) land = Some info"
    by (metis map_of_eq_None_iff not_Some_eq)
  from Cons obtain v where "total_profit ds solution scenario = Inr v" by auto
  with x info show ?case by simp
qed

lemma concentration_penalty_defined:
  "solution \<noteq> [] \<Longrightarrow> \<exists>p. concentration_penalty solution = Inr p"
  by (cases solution) (auto simp: concentration_penalty_def)

lemma fitness_empty: "calculate_fitness ds [] scenario = Inl IndexError"
  by (simp add: calculate_fitness_def calculate_constraint_penalty_def
      concentration_penalty_def)

text \<open>
  Claim C10. On a plan with at least one plot, all of whose plots are plots of the
  dataset, the fitness evaluator returns a value, and the concentration scan, which reads
  the year dict of the first plot without a guard, returns one too. On the plan with no
  plots the evaluation raises \<^verbatim>\<open>IndexError\<close>.
\<close>

theorem fitness_total:
  "(solution \<noteq> [] \<longrightarrow> fst ` set solution \<subseteq> fst ` set (land_info ds) \<longrightarrow>
      (\<exists>v. calculate_fitness ds solution scenario = Inr v)
      \<and> (\<exists>p. concentration_penalty solution = Inr p))
   \<and> calculate_fitness ds [] scenario = Inl IndexError"
proof (intro conjI impI)
  assume ne: "solution \<noteq> []" and sub: "fst ` set solution \<subseteq> fst ` set (land_info ds)"
  from concentration_penalty_defined[OF ne]
  show "\<exists>p. concentration_penalty solution = Inr p" .
  then obtain p where p: "concentration_penalty solution = Inr p" ..
  from total_profit_defined[OF sub] obtain v
    where v: "total_profit ds solution scenario = Inr v" ..
  from p v show "\<exists>v. calculate_fitness ds solution scenario = Inr v"
    by (simp add: calculate_fitness_def calculate_constraint_penalty_def)
next
  show "calculate_fitness ds [] scenario = Inl IndexError" by (rule fitness_empty)
qed

theorem fitness_total_witness:
  "(\<exists>v. calculate_fitness scenario_dataset scenario_plan 2 = Inr v)
   \<and> (\<exists>p. concentration_penalty scenario_plan = Inr p)
   \<and> calculate_fitness scenario_dataset [] 2 = Inl IndexError"
proof -
  have ne: "scenario_plan \<noteq> []" by (simp add: scenario_plan_def)
  have sub: "fst ` set scenario_plan \<subseteq> fst ` set (land_info scenario_dataset)"
    by (simp add: scenario_plan_def scenario_dataset_def)
  from fitness_total[of scenario_plan scenario_dataset 2] ne sub show ?thesis by blast
qed

section \<open>Legume rotation\<close>

lemma lookup_cell_in_all_cells:
  assumes "lookup_cell d year season = Some c"
  shows "c \<in> set (all_cells d)"
proof -
  from assms obtain sd where sd: "map_of d year = Some sd" "map_of sd season = Some c"
    by (auto simp: lookup_cell_def split: option.splits)
  then have "(year, sd) \<in> set d" "(season, c) \<in> set sd" by (auto dest: map_of_SomeD)
  then show ?thesis by (force simp: all_cells_def)
qed

lemma scan_cells_iff:
  "c \<in> set (scan_cells d years)
     \<longleftrightarrow> (\<exists>year \<in> set years. \<exists>season \<in> set SEASONS. lookup_cell d year season = Some c)"
  unfolding scan_cells_def List.map_filter_def by (simp add: image_iff) force

lemma scan_cells_subset: "set (scan_cells d years) \<subseteq> set (all_cells d)"
  by (auto simp: scan_cells_iff dest: lookup_cell_in_all_cells)

lemma bean_crops_iff: "c \<in> set (bean_crops ds) \<longleftrightarrow> is_legume ds c"
  by (force simp: bean_crops_def is_legume_def list_ex_iff)

lemma literal_has_marker:
  "t \<in> set [LIANG_SHI_DOU_LEI, SHU_CAI_DOU_LEI] \<Longrightarrow> sublist DOU_LEI t"
  by (auto simp: ustr_defs sublist_Cons_right prefix_code)

lemma bean_scan_no_legume:
  assumes "\<forall>c \<in> set cs. crop_id c \<in> fst ` set (crop_info ds)"
      and "\<forall>c \<in> set cs. \<not> is_legume ds (crop_id c)"
  shows "bean_scan (crop_info ds) cs = Inr False"
  using assms
proof (induction cs)
  case Nil
  then show ?case by simp
next
  case (Cons c cs)
  from Cons.prems(1) obtain info where info: "map_of (crop_info ds) (crop_id c) = Some info"
    by (metis list.set_intros(1) map_of_eq_None_iff not_Some_eq)
  then have "(crop_id c, info) \<in> set (crop_info ds)" by (rule map_of_SomeD)
  moreover from Cons.prems(2) have "\<not> is_legume ds (crop_id c)" by simp
  ultimately have "\<not> sublist DOU_LEI (ctype info)"
    by (force simp: is_legume_def list_ex_iff)
  with literal_has_marker have "ctype info \<notin> set [LIANG_SHI_DOU_LEI, SHU_CAI_DOU_LEI]"
    by blast
  with info Cons show ?case by simp
qed

lemma bean_scan_known:
  assumes "\<forall>c \<in> set cs. crop_id c \<in> fst ` set (crop_info ds)"
  shows "\<exists>b. bean_scan (crop_info ds) cs = Inr b"
  using assms
proof (induction cs)
  case Nil
  show ?case by (rule exI[of _ False]) simp
next
  case (Cons c cs)
  from Cons.prems obtain info where info: "map_of (crop_info ds) (crop_id c) = Some info"
    by (metis list.set_intros(1) map_of_eq_None_iff not_Some_eq)
  from Cons obtain b where "bean_scan (crop_info ds) cs = Inr b" by auto
  with info show ?case
    by (cases "ctype info \<in> set [LIANG_SHI_DOU_LEI, SHU_CAI_DOU_LEI]") auto
qed

lemma validate_rotation_fails:
  assumes "crops_known ds (pre @ (land, d) # post)" and "legume_free ds d"
  shows "validate_rotation (pre @ (land, d) # post) (crop_info ds) years = Inr False"
  using assms(1)
proof (induction pre)
  case Nil
  then have known: "\<forall>c \<in> set (scan_cells d (py_range years)). crop_id c \<in> fst ` set (crop_info ds)"
    using scan_cells_subset[of d "py_range years"]
    by (auto simp: crops_known_def list_all_iff)
  from assms(2) have "\<forall>c \<in> set (scan_cells d (py_range years)). \<not> is_legume ds (crop_id c)"
    using scan_cells_subset[of d "py_range years"]
    by (auto simp: legume_free_def list_ex_iff)
  from bean_scan_no_legume[OF known this] show ?case by simp
next
  case (Cons x pre)
  obtain land' d' where x: "x = (land', d')" by (cases x)
  from Cons.prems x
  have "\<forall>c \<in> set (scan_cells d' (py_range years)). crop_id c \<in> fst ` set (crop_info ds)"
    using scan_cells_subset[of d' "py_range years"]
    by (auto simp: crops_known_def list_all_iff)
  from bean_scan_known[OF this] obtain b
    where b: "bean_scan (crop_info ds) (scan_cells d' (py_range years)) = Inr b" ..
  from Cons.prems have "crops_known ds (pre @ (land, d) # post)"
    by (simp add: crops_known_def)
  with Cons.IH b x show ?case by simp
qed

lemma legume_free_not_planted:
  assumes "legume_free ds d"
  shows "\<not> bean_planted ds d"
  using assms scan_cells_subset[of d "py_range (int (length d))"]
  by (auto simp: legume_free_def bean_planted_def list_ex_iff bean_crops_iff)

lemma rotation_penalty_split:
  "rotation_penalty ds (pre @ (land, d) # post)
     = rotation_penalty ds pre + (if \<not> bean_planted ds d then 100000 else 0)
       + rotation_penalty ds post"
  by (simp add: rotation_penalty_def)

text \<open>
  What holds on a plan whose cells all plant crops of the dataset: a plot with zero
  legume cells makes \<^verbatim>\<open>validate_rotation\<close> return \<^verbatim>\<open>False\<close> for every horizon, the
  rotation scan of the penalty finds no legume on it, and it adds 100000 to the rotation
  penalty exactly once. The penalty counts a crop as a legume exactly when its category
  tag contains the legume marker.
\<close>

lemma legume_free_plot_fails:
  assumes "crops_known ds (pre @ (land, d) # post)" and "legume_free ds d"
  shows "validate_rotation (pre @ (land, d) # post) (crop_info ds) years = Inr False
       \<and> \<not> bean_planted ds d
       \<and> rotation_penalty ds (pre @ (land, d) # post)
           = rotation_penalty ds pre + 100000 + rotation_penalty ds post
       \<and> (c \<in> set (bean_crops ds) \<longleftrightarrow> is_legume ds c)"
  using validate_rotation_fails[OF assms] legume_free_not_planted[OF assms(2)]
    rotation_penalty_split[of ds pre land d post] bean_crops_iff[of c ds]
  by simp

lemma hill_bean_crops: "bean_crops hill_dataset = [1]"
  by (simp add: bean_crops_def hill_dataset_def ustr_defs sublist_Cons_right prefix_code)

lemma hill_is_legume: "is_legume hill_dataset 1" "\<not> is_legume hill_dataset 6"
  by (simp_all add: is_legume_def hill_dataset_def ustr_defs sublist_Cons_right prefix_code)

lemma hill_known:
  "crops_known hill_dataset ([(''C1'', [(0, [(DAN_JI, soy_cell)])])]
     @ (''C2'', [(0, [(DAN_JI, wheat_cell)])]) # [])"
  by (simp add: crops_known_def all_cells_def hill_dataset_def soy_cell_def wheat_cell_def)

lemma hill_legume_free: "legume_free hill_dataset [(0, [(DAN_JI, wheat_cell)])]"
  by (simp add: legume_free_def all_cells_def hill_is_legume wheat_cell_def)

lemma hill_rotation_pre:
  "rotation_penalty hill_dataset [(''C1'', [(0, [(DAN_JI, soy_cell)])])] = 0"
  using scan_cells_single
  by (simp add: rotation_penalty_def bean_planted_def hill_bean_crops soy_cell_def)

lemma hill_legume_free_plot_fails:
  "validate_rotation hill_plan (crop_info hill_dataset) 7 = Inr False
   \<and> rotation_penalty hill_dataset hill_plan = 100000
   \<and> is_legume hill_dataset 1"
  using legume_free_plot_fails[OF hill_known hill_legume_free, of 7 1] hill_rotation_pre
  by (simp add: hill_plan_def hill_bean_crops rotation_penalty_def)

section \<open>The constructive generator keeps the structural invariant\<close>












lemma water_regenerate_rice:
  "regenerate water_dataset SHUI_JIAO_DI 10 [0] = ([(DAN_JI, rice_cell)], [])"
  by (simp add: regenerate_def random_lt_half_def next_rand_def ustr_defs rice_cell_def)


lemma water_land_info:
  "land_info water_dataset = [(''D1'', \<lparr>ltype = SHUI_JIAO_DI, larea = 10\<rparr>)]"
  by (simp add: water_dataset_def)

lemma water_generate_rice: "generate_initial_solution water_dataset 1 [0] = rice_plan"
  by (simp add: generate_initial_solution_def py_range_def water_land_info
      water_regenerate_rice rice_plan_def)



section \<open>The rice cell of an irrigated plot\<close>

text \<open>
  Claim C9, at a failing input. The dataset has one irrigated plot and no crop with id
  18. When the coin of the generator falls on the single-season branch, the generated
  plan plants crop 18 on the plot, and so does the regeneration step of the local search:
  a crop id that is not in the crop set. The branches for the second season filter their
  fixed ids by \<^verbatim>\<open>c in self.crop_info\<close>; the rice branch does not. On that plan
  \<^verbatim>\<open>validate_rotation\<close>, which \<^verbatim>\<open>optimize\<close> calls next, raises \<^verbatim>\<open>KeyError\<close>.
\<close>

theorem rice_cell_unknown_crop:
  "generate_initial_solution water_dataset 1 [0] = rice_plan
   \<and> fst (regenerate water_dataset SHUI_JIAO_DI 10 [0]) = [(DAN_JI, rice_cell)]
   \<and> crop_id rice_cell = 18
   \<and> 18 \<notin> fst ` set (crop_info water_dataset)
   \<and> \<not> crops_known water_dataset (generate_initial_solution water_dataset 1 [0])
   \<and> validate_rotation rice_plan (crop_info water_dataset) 1 = Inl KeyError"
proof -
  have "18 \<notin> fst ` set (crop_info water_dataset)" by (simp add: water_dataset_def)
  moreover have "\<not> crops_known water_dataset rice_plan"
    by (simp add: crops_known_def rice_plan_def all_cells_def rice_cell_def water_dataset_def)
  moreover have "validate_rotation rice_plan (crop_info water_dataset) 1 = Inl KeyError"
    using scan_cells_single[of rice_cell]
    by (simp add: rice_plan_def) (simp add: rice_cell_def water_dataset_def)
  ultimately show ?thesis
    by (simp add: water_generate_rice water_regenerate_rice) (simp add: rice_cell_def)
qed

section \<open>Local search on shared year dicts\<close>

lemma search_loop_pos:
  assumes "0 < n"
  shows "search_loop n ds scenario best h best_fitness t =
     (case random_sample best (min 5 (length best)) t of
        (lands_to_modify, t1) \<Rightarrow>
          (case try_lands ds scenario best h best_fitness lands_to_modify t1 of
             Inl e \<Rightarrow> Inl e
           | Inr (h', best_fitness', improved, t2) \<Rightarrow>
               if improved then search_loop (n - 1) ds scenario best h' best_fitness' t2
               else Inr (h', best_fitness')))"
proof (cases n)
  case 0
  with assms show ?thesis by simp
next
  case (Suc m)
  show ?thesis unfolding Suc search_loop.simps diff_Suc_1 by (rule refl)
qed

lemma hill_grain: "grain_crops hill_dataset = crop_info hill_dataset"
  by (simp add: grain_crops_def hill_dataset_def ustr_defs sublist_Cons_right prefix_code)

lemma three_mod_two: "(3::nat) mod Suc (Suc 0) = Suc 0"
  by presburger

lemma hill_regenerate:
  "regenerate hill_dataset SHAN_PO_DI 1 (3 # t) = ([(DAN_JI, wheat_cell)], t)"
  by (simp add: regenerate_def plant_def hill_grain random_choice_def next_rand_def
      wheat_cell_def)
    (simp add: hill_dataset_def three_mod_two)

lemma two_plots_profit:
  "total_profit hill_dataset (two_plots soy_cell soy_cell) scenario = Inr 380"
  "total_profit hill_dataset (two_plots wheat_cell soy_cell) scenario = Inr 200"
  "total_profit hill_dataset (two_plots wheat_cell wheat_cell) scenario = Inr 20"
  by (simp_all add: two_plots_def hill_dataset_def plot_profit_def cell_profit_def
      cell_revenue_def revenue_def soy_cell_def wheat_cell_def ustr_defs)

lemma two_plots_rotation:
  "rotation_penalty hill_dataset (two_plots soy_cell soy_cell) = 0"
  "rotation_penalty hill_dataset (two_plots wheat_cell soy_cell) = 100000"
  "rotation_penalty hill_dataset (two_plots wheat_cell wheat_cell) = 200000"
  using scan_cells_single
  by (simp_all add: rotation_penalty_def bean_planted_def hill_bean_crops two_plots_def
      soy_cell_def wheat_cell_def)

lemma two_plots_replant: "replant_penalty (two_plots c1 c2) = 0"
  using scan_cells_single by (simp add: replant_penalty_def two_plots_def)

lemma two_plots_concentration:
  "concentration_penalty (two_plots soy_cell soy_cell) = Inr 0"
  "concentration_penalty (two_plots wheat_cell soy_cell) = Inr 100000"
  "concentration_penalty (two_plots wheat_cell wheat_cell) = Inr 0"
  by (simp_all add: concentration_penalty_def two_plots_def py_range_def SEASONS_def
      stratum_penalty_def lookup_cell_def dist_add_def lands_penalty_def soy_cell_def
      wheat_cell_def)

lemma two_plots_min_area:
  "min_area_penalty (two_plots soy_cell soy_cell) = 0"
  "min_area_penalty (two_plots wheat_cell soy_cell) = 0"
  "min_area_penalty (two_plots wheat_cell wheat_cell) = 0"
  by (simp_all add: min_area_penalty_def two_plots_def soy_cell_def wheat_cell_def)

lemma two_plots_fitness:
  "calculate_fitness hill_dataset (two_plots soy_cell soy_cell) scenario = Inr 380"
  "calculate_fitness hill_dataset (two_plots wheat_cell soy_cell) scenario = Inr (- 199800)"
  "calculate_fitness hill_dataset (two_plots wheat_cell wheat_cell) scenario = Inr (- 199980)"
  by (simp_all add: calculate_fitness_def calculate_constraint_penalty_def two_plots_profit
      two_plots_rotation two_plots_replant two_plots_concentration two_plots_min_area)

lemma hill_deref:
  "deref hill_heap hill_ref = two_plots soy_cell soy_cell"
  "deref hill_heap1 hill_ref = two_plots wheat_cell soy_cell"
  "deref hill_heap2 hill_ref = two_plots wheat_cell wheat_cell"
  by (simp_all add: deref_def hill_heap2_def hill_heap1_def hill_heap_def hill_ref_def
      two_plots_def)

lemma hill_land:
  "map_of (land_info hill_dataset) ''C1'' = Some \<lparr>ltype = SHAN_PO_DI, larea = 1\<rparr>"
  "map_of (land_info hill_dataset) ''C2'' = Some \<lparr>ltype = SHAN_PO_DI, larea = 1\<rparr>"
  by (simp_all add: hill_dataset_def)

lemma hill_heap_update:
  "hill_heap(0 := dict_set 0 [(DAN_JI, wheat_cell)] (hill_heap 0)) = hill_heap1"
  "hill_heap1(2 := dict_set 0 [(DAN_JI, wheat_cell)] (hill_heap1 2)) = hill_heap2"
  by (simp_all add: hill_heap2_def hill_heap1_def hill_heap_def)

lemma hill_trial1:
  "trial hill_dataset scenario hill_ref hill_heap (''C1'', 0) (0 # 3 # t)
     = Inr (hill_heap1, - 199800, t)"
  by (simp add: trial_def random_randint0_def next_rand_def hill_land hill_regenerate
      hill_heap_update hill_deref two_plots_fitness)
    (simp add: hill_heap_def)

lemma hill_trial2:
  "trial hill_dataset scenario hill_ref hill_heap1 (''C2'', 2) (0 # 3 # t)
     = Inr (hill_heap2, - 199980, t)"
  by (simp add: trial_def random_randint0_def next_rand_def hill_land hill_regenerate
      hill_heap_update hill_deref two_plots_fitness)
    (simp add: hill_heap_def hill_heap1_def)

lemma hill_try_lands:
  "try_lands hill_dataset scenario hill_ref hill_heap 380 [(''C1'', 0), (''C2'', 2)] [0, 3, 0, 3]
     = Inr (hill_heap2, 380, False, [])"
  by (simp add: hill_trial1 hill_trial2)

lemma hill_sample:
  "random_sample hill_ref (min 5 (length hill_ref)) (0 # 0 # t) = ([(''C1'', 0), (''C2'', 2)], t)"
  by (simp add: hill_ref_def next_rand_def eval_nat_numeral)

lemma hill_search_loop:
  "search_loop 100 hill_dataset scenario hill_ref hill_heap 380 [0, 0, 0, 3, 0, 3]
     = Inr (hill_heap2, 380)"
  by (simp add: search_loop_pos hill_sample hill_try_lands del: try_lands.simps)

text \<open>
  Claim C1, at a failing input. The input plan grows soybean on both hillside plots and
  has fitness 380. The search samples both plots; each trial draws wheat, scores below
  380 and is rejected, and the search stops after this pass with \<^verbatim>\<open>best_fitness\<close> 380.
  But each trial wrote its cell into the year dict that \<^verbatim>\<open>best_solution\<close> shares with
  \<^verbatim>\<open>test_solution\<close>, so the returned plan grows wheat on both plots and has fitness
  -199980, below the fitness of the input.
\<close>

theorem local_search_lowers_fitness:
  "calculate_fitness hill_dataset (deref hill_heap hill_ref) 1 = Inr 380
   \<and> simple_local_search hill_dataset hill_ref 1 hill_heap [0, 0, 0, 3, 0, 3]
       = Inr (hill_ref, hill_heap2, 380)
   \<and> deref hill_heap2 hill_ref = two_plots wheat_cell wheat_cell
   \<and> calculate_fitness hill_dataset (deref hill_heap2 hill_ref) 1 = Inr (- 199980)
   \<and> (- 199980 :: real) < 380"
  by (simp add: simple_local_search_def local_search_def hill_deref two_plots_fitness
      hill_search_loop)

text \<open>
  Claim C2, at a failing input. With the best plan growing soybean on both plots
  (\<^verbatim>\<open>best_fitness\<close> 380), the trial on the first plot draws wheat and scores -199800. It
  is rejected: the loop over the sampled plots ends with \<^verbatim>\<open>improved\<close> false and
  \<^verbatim>\<open>best_fitness\<close> still 380. Yet in the store after the trial the single-season cell of
  the first plot of the best plan in year 0 is the wheat cell, no longer the soybean cell.
\<close>

theorem rejected_trial_changes_best:
  "trial hill_dataset 1 hill_ref hill_heap (''C1'', 0) [0, 3] = Inr (hill_heap1, - 199800, [])
   \<and> try_lands hill_dataset 1 hill_ref hill_heap 380 [(''C1'', 0)] [0, 3]
       = Inr (hill_heap1, 380, False, [])
   \<and> deref hill_heap hill_ref = two_plots soy_cell soy_cell
   \<and> deref hill_heap1 hill_ref = two_plots wheat_cell soy_cell
   \<and> lookup_cell (hill_heap 0) 0 DAN_JI = Some soy_cell
   \<and> lookup_cell (hill_heap1 0) 0 DAN_JI = Some wheat_cell
   \<and> soy_cell \<noteq> wheat_cell"
  by (simp add: hill_trial1 hill_deref)
    (simp add: hill_heap1_def hill_heap_def lookup_cell_def soy_cell_def wheat_cell_def)

section \<open>Concentration: the penalty rule and the validator\<close>

lemma dict_set_map_of: "map_of (dict_set k v d) = (map_of d)(k \<mapsto> v)"
  by (induction d) (auto simp: fun_eq_iff)

lemma dict_set_keys: "fst ` set (dict_set k v d) = insert k (fst ` set d)"
proof (induction d)
  case Nil
  then show ?case by simp
next
  case (Cons p d)
  obtain k' v' where "p = (k', v')" by (cases p)
  with Cons.IH show ?case by (simp add: insert_commute)
qed

lemma dict_set_distinct: "distinct (map fst d) \<Longrightarrow> distinct (map fst (dict_set k v d))"
  by (induction d) (auto simp: dict_set_keys)

lemma dist_add_map_of:
  "map_of (dist_add c l cd)
     = (map_of cd)(c \<mapsto> insert l (case map_of cd c of None \<Rightarrow> {} | Some S \<Rightarrow> S))"
  by (simp add: dist_add_def dict_set_map_of split: option.splits)

lemma dist_add_distinct: "distinct (map fst cd) \<Longrightarrow> distinct (map fst (dist_add c l cd))"
  by (simp add: dist_add_def dict_set_distinct split: option.splits)

lemma lands_of_Nil [simp]: "lands_of [] c = {}"
  by (simp add: lands_of_def)

lemma lands_of_Cons:
  "lands_of ((c', l) # pairs) c = (if c' = c then insert l (lands_of pairs c) else lands_of pairs c)"
  by (simp add: lands_of_def)

lemma fold_dist_add_map_of:
  "map_of (fold (\<lambda>(c, l). dist_add c l) pairs cd) c
     = (case map_of cd c of
          None \<Rightarrow> if lands_of pairs c = {} then None else Some (lands_of pairs c)
        | Some S \<Rightarrow> Some (S \<union> lands_of pairs c))"
proof (induction pairs arbitrary: cd)
  case Nil
  then show ?case by (simp split: option.splits)
next
  case (Cons p pairs)
  obtain c' l where p: "p = (c', l)" by (cases p)
  show ?case
    by (simp add: p Cons.IH dist_add_map_of lands_of_Cons split: option.splits)
qed

lemma fold_dist_add_distinct:
  "distinct (map fst cd) \<Longrightarrow> distinct (map fst (fold (\<lambda>(c, l). dist_add c l) pairs cd))"
  by (induction pairs arbitrary: cd) (auto simp: dist_add_distinct)

lemma fold_dist_add_entries:
  "(c, S) \<in> set (fold (\<lambda>(c, l). dist_add c l) pairs [])
     \<longleftrightarrow> lands_of pairs c \<noteq> {} \<and> S = lands_of pairs c"
proof -
  have "distinct (map fst (fold (\<lambda>(c, l). dist_add c l) pairs []))"
    by (rule fold_dist_add_distinct) simp
  then have "(c, S) \<in> set (fold (\<lambda>(c, l). dist_add c l) pairs [])
      \<longleftrightarrow> map_of (fold (\<lambda>(c, l). dist_add c l) pairs []) c = Some S"
    by simp
  then show ?thesis by (auto simp: fold_dist_add_map_of)
qed


lemma stratum_pairs_Nil [simp]: "stratum_pairs [] year season = []"
  by (simp add: stratum_pairs_def)

lemma stratum_pairs_Cons:
  "stratum_pairs ((land, d) # solution) year season
     = (case lookup_cell d year season of
          None \<Rightarrow> stratum_pairs solution year season
        | Some cl \<Rightarrow> (crop_id cl, land) # stratum_pairs solution year season)"
  by (simp add: stratum_pairs_def split: option.splits)

lemma crop_distribution_fold:
  "crop_distribution solution year season cd
     = fold (\<lambda>(c, l). dist_add c l) (stratum_pairs solution year season) cd"
proof (induction solution arbitrary: cd)
  case Nil
  then show ?case by simp
next
  case (Cons p solution)
  obtain land d where p: "p = (land, d)" by (cases p)
  show ?case
    by (cases "lookup_cell d year season") (simp_all add: p stratum_pairs_Cons Cons.IH)
qed

lemma plots_growing_Nil [simp]: "plots_growing [] year season c = {}"
  by (simp add: plots_growing_def)

lemma plots_growing_Cons:
  "plots_growing ((land, d) # solution) year season c
     = (case lookup_cell d year season of
          None \<Rightarrow> plots_growing solution year season c
        | Some cl \<Rightarrow> if crop_id cl = c then insert land (plots_growing solution year season c)
                     else plots_growing solution year season c)"
  by (simp add: plots_growing_def split: option.splits)

lemma lands_of_stratum:
  "lands_of (stratum_pairs solution year season) c = plots_growing solution year season c"
proof (induction solution)
  case Nil
  then show ?case by simp
next
  case (Cons p solution)
  obtain land d where p: "p = (land, d)" by (cases p)
  show ?case
    by (cases "lookup_cell d year season")
       (simp_all add: p stratum_pairs_Cons plots_growing_Cons lands_of_Cons Cons.IH)
qed

lemma pooled_pairs_Nil [simp]: "pooled_pairs [] = []"
  by (simp add: pooled_pairs_def)

lemma pooled_pairs_Cons:
  "pooled_pairs ((land, d) # solution)
     = map (\<lambda>cl. (crop_id cl, land)) (scan_cells d (py_range (int (length d))))
       @ pooled_pairs solution"
  by (simp add: pooled_pairs_def)

lemma fold_cells_pairs:
  "fold (\<lambda>c. dist_add (crop_id c) land) cells cd
     = fold (\<lambda>(c, l). dist_add c l) (map (\<lambda>cl. (crop_id cl, land)) cells) cd"
  by (induction cells arbitrary: cd) simp_all

lemma pooled_fold_general:
  "fold (\<lambda>(land, crops) cd.
           fold (\<lambda>c. dist_add (crop_id c) land)
             (scan_cells crops (py_range (int (length crops)))) cd) solution cd
     = fold (\<lambda>(c, l). dist_add c l) (pooled_pairs solution) cd"
proof (induction solution arbitrary: cd)
  case Nil
  then show ?case by simp
next
  case (Cons p solution)
  obtain land d where p: "p = (land, d)" by (cases p)
  show ?case
    by (simp add: p pooled_pairs_Cons Cons.IH) (simp add: fold_cells_pairs)
qed

lemma pooled_distribution_fold:
  "pooled_distribution solution = fold (\<lambda>(c, l). dist_add c l) (pooled_pairs solution) []"
  by (simp add: pooled_distribution_def pooled_fold_general)

lemma lands_penalty_nonneg: "0 \<le> lands_penalty S"
  by (simp add: lands_penalty_def)

lemma lands_penalty_zero_iff: "lands_penalty S = 0 \<longleftrightarrow> 2 \<le> card S \<and> card S \<le> 8"
  by (auto simp: lands_penalty_def)

lemma stratum_penalty_nonneg: "0 \<le> stratum_penalty solution year season"
  unfolding stratum_penalty_def
  by (rule sum_list_nonneg) (auto simp: lands_penalty_nonneg)

lemma stratum_penalty_zero_iff:
  "stratum_penalty solution year season = 0
     \<longleftrightarrow> (\<forall>c. plots_growing solution year season c \<noteq> {}
              \<longrightarrow> 2 \<le> card (plots_growing solution year season c)
                \<and> card (plots_growing solution year season c) \<le> 8)"
proof -
  let ?R = "crop_distribution solution year season []"
  have "stratum_penalty solution year season = 0
      \<longleftrightarrow> (\<forall>x \<in> set (map (\<lambda>(c, lands). lands_penalty lands) ?R). x = 0)"
    unfolding stratum_penalty_def
    by (rule sum_list_nonneg_eq_0_iff) (auto simp: lands_penalty_nonneg)
  also have "\<dots> \<longleftrightarrow> (\<forall>c S. (c, S) \<in> set ?R \<longrightarrow> lands_penalty S = 0)"
    by auto
  also have "\<dots> \<longleftrightarrow> (\<forall>c. plots_growing solution year season c \<noteq> {}
              \<longrightarrow> lands_penalty (plots_growing solution year season c) = 0)"
    by (simp add: crop_distribution_fold fold_dist_add_entries lands_of_stratum)
  finally show ?thesis by (simp add: lands_penalty_zero_iff)
qed

lemma first_plot_years_zero_iff:
  "concentration_penalty ((land0, d0) # rest) = Inr 0
     \<longleftrightarrow> (\<forall>year < length d0. \<forall>season \<in> set SEASONS. \<forall>c.
            plots_growing ((land0, d0) # rest) year season c \<noteq> {}
              \<longrightarrow> 2 \<le> card (plots_growing ((land0, d0) # rest) year season c)
                \<and> card (plots_growing ((land0, d0) # rest) year season c) \<le> 8)"
proof -
  let ?sol = "(land0, d0) # rest"
  have inner: "(\<Sum>season \<leftarrow> SEASONS. stratum_penalty ?sol year season) = 0
      \<longleftrightarrow> (\<forall>season \<in> set SEASONS. stratum_penalty ?sol year season = 0)" for year
    by (subst sum_list_nonneg_eq_0_iff) (auto simp: stratum_penalty_nonneg)
  have inner_nonneg: "0 \<le> (\<Sum>season \<leftarrow> SEASONS. stratum_penalty ?sol year season)" for year
    by (rule sum_list_nonneg) (auto simp: stratum_penalty_nonneg)
  have "concentration_penalty ?sol = Inr 0
      \<longleftrightarrow> (\<forall>year \<in> set [0..<length d0]. (\<Sum>season \<leftarrow> SEASONS. stratum_penalty ?sol year season) = 0)"
    unfolding concentration_penalty_def py_range_def
    by (simp, subst sum_list_nonneg_eq_0_iff) (auto simp: inner_nonneg)
  also have "\<dots> \<longleftrightarrow> (\<forall>year < length d0. \<forall>season \<in> set SEASONS.
      stratum_penalty ?sol year season = 0)"
    by (auto simp: inner)
  finally show ?thesis
    by (simp only: stratum_penalty_zero_iff)
qed


lemma plots_growing_iff:
  "land \<in> plots_growing solution year season c
     \<longleftrightarrow> (\<exists>d cl. (land, d) \<in> set solution \<and> lookup_cell d year season = Some cl
                 \<and> crop_id cl = c)"
  unfolding plots_growing_def by (force split: option.splits)

lemma lands_of_iff: "l \<in> lands_of pairs c \<longleftrightarrow> (c, l) \<in> set pairs"
  unfolding lands_of_def by force

lemma pooled_pairs_iff:
  "(c, l) \<in> set (pooled_pairs solution)
     \<longleftrightarrow> (\<exists>d cl. (l, d) \<in> set solution
                 \<and> cl \<in> set (scan_cells d (py_range (int (length d)))) \<and> crop_id cl = c)"
  unfolding pooled_pairs_def by force

lemma finite_lands_of: "finite (lands_of pairs c)"
  by (simp add: lands_of_def)

lemma py_range_length: "set (py_range (int n)) = {..<n}"
  by (auto simp: py_range_def)





lemma validate_concentration_iff:
  "validate_concentration solution 2
     \<longleftrightarrow> (\<forall>c. lands_of (pooled_pairs solution) c \<noteq> {}
              \<longrightarrow> 2 \<le> card (lands_of (pooled_pairs solution) c))"
proof -
  have "validate_concentration solution 2
     \<longleftrightarrow> (\<forall>c S. (c, S) \<in> set (pooled_distribution solution) \<longrightarrow> 2 \<le> card S)"
    by (force simp: validate_concentration_def list_ex_iff)
  also have "\<dots> \<longleftrightarrow> (\<forall>c. lands_of (pooled_pairs solution) c \<noteq> {}
              \<longrightarrow> 2 \<le> card (lands_of (pooled_pairs solution) c))"
    by (simp add: pooled_distribution_fold fold_dist_add_entries)
  finally show ?thesis .
qed

text \<open>
  Claim C5, as amended. For a plan with at least one plot whose plots all have the same
  number of years, if the concentration rule of the penalty adds nothing, then
  \<^verbatim>\<open>validate_concentration\<close> with \<^verbatim>\<open>min_plots = 2\<close> passes. The converse fails: the
  validator pools the plots of a crop over all years and seasons and has no upper bound.
\<close>

theorem zero_penalty_validates:
  assumes "solution \<noteq> []" and "same_years n solution"
      and "concentration_penalty solution = Inr 0"
  shows "validate_concentration solution 2"
proof -
  from assms(1) obtain land0 d0 rest where sol: "solution = (land0, d0) # rest"
    by (cases solution) auto
  from assms(2) have len: "length d = n" if "(land, d) \<in> set solution" for land d
    using that by (auto simp: same_years_def list_all_iff)
  from len[of land0 d0] sol have len0: "length d0 = n" by simp
  from assms(3) first_plot_years_zero_iff[of land0 d0 rest] sol len0
  have zero: "\<And>year season c. year < n \<Longrightarrow> season \<in> set SEASONS
      \<Longrightarrow> plots_growing solution year season c \<noteq> {}
      \<Longrightarrow> 2 \<le> card (plots_growing solution year season c)"
    by simp
  have "2 \<le> card (lands_of (pooled_pairs solution) c)"
    if ne: "lands_of (pooled_pairs solution) c \<noteq> {}" for c
  proof -
    from ne obtain l where "(c, l) \<in> set (pooled_pairs solution)"
      by (auto simp: lands_of_iff)
    then obtain d cl where d: "(l, d) \<in> set solution"
      and cl: "cl \<in> set (scan_cells d (py_range (int (length d))))" "crop_id cl = c"
      by (auto simp: pooled_pairs_iff)
    from cl(1) obtain year season where ys: "year < length d" "season \<in> set SEASONS"
      "lookup_cell d year season = Some cl"
      by (auto simp: scan_cells_iff py_range_length)
    from ys(1) len[OF d] have yn: "year < n" by simp
    from d ys(3) cl(2) have "l \<in> plots_growing solution year season c"
      by (auto simp: plots_growing_iff)
    then have "plots_growing solution year season c \<noteq> {}" by auto
    from zero[OF yn ys(2) this] have two: "2 \<le> card (plots_growing solution year season c)" .
    have "plots_growing solution year season c \<subseteq> lands_of (pooled_pairs solution) c"
    proof
      fix l' assume "l' \<in> plots_growing solution year season c"
      then obtain d' cl' where d': "(l', d') \<in> set solution"
        "lookup_cell d' year season = Some cl'" "crop_id cl' = c"
        by (auto simp: plots_growing_iff)
      from yn len[OF d'(1)] have "year < length d'" by simp
      with ys(2) d'(2) have "cl' \<in> set (scan_cells d' (py_range (int (length d'))))"
        by (auto simp: scan_cells_iff py_range_length)
      with d' show "l' \<in> lands_of (pooled_pairs solution) c"
        by (auto simp: lands_of_iff pooled_pairs_iff)
    qed
    from card_mono[OF finite_lands_of this] two show ?thesis by simp
  qed
  then show ?thesis by (simp add: validate_concentration_iff)
qed





lemma swap_scan:
  "scan_cells [(0, [(DAN_JI, c1)]), (1, [(DAN_JI, c2)])] (py_range 2) = [c1, c2]"
  by (simp add: scan_cells_def py_range_def SEASONS_def lookup_cell_def upt_rec[of 0]
      upt_rec[of 1] upt_rec[of "Suc 0"] numeral_2_eq_2)

lemma swap_validates: "validate_concentration swap_plan 2"
  using swap_scan
  by (simp add: validate_concentration_def pooled_distribution_def swap_plan_def dist_add_def
      soy_cell_def wheat_cell_def)

lemma swap_concentration: "concentration_penalty swap_plan = Inr 200000"
  by (simp add: concentration_penalty_def swap_plan_def py_range_def SEASONS_def
      stratum_penalty_def lookup_cell_def dist_add_def lands_penalty_def soy_cell_def
      wheat_cell_def upt_rec[of 0] upt_rec[of 1] upt_rec[of "Suc 0"] numeral_2_eq_2)

text \<open>The validator passes with \<^verbatim>\<open>min_plots = 2\<close> on a plan whose concentration penalty
  is 200000: each crop grows on two plots overall, but on one plot in each stratum.\<close>

theorem validator_mirror_counterexample:
  "validate_concentration swap_plan 2
   \<and> concentration_penalty swap_plan = Inr 200000
   \<and> concentration_penalty swap_plan \<noteq> Inr 0"
  by (simp add: swap_validates swap_concentration)

theorem zero_penalty_validates_witness:
  "concentration_penalty (two_plots soy_cell soy_cell) = Inr 0
   \<and> validate_concentration (two_plots soy_cell soy_cell) 2"
proof -
  have ne: "two_plots soy_cell soy_cell \<noteq> []" by (simp add: two_plots_def)
  have sy: "same_years 1 (two_plots soy_cell soy_cell)"
    by (simp add: same_years_def two_plots_def)
  from zero_penalty_validates[OF ne sy two_plots_concentration(1)] two_plots_concentration(1)
  show ?thesis by simp
qed

section \<open>The rotation check against the rotation penalty\<close>

lemma water_bean_crops: "bean_crops water_dataset = []"
  by (simp add: bean_crops_def water_dataset_def ustr_defs sublist_Cons_right prefix_code)

lemma rice_not_legume: "\<not> is_legume water_dataset 18"
  by (simp add: is_legume_def water_dataset_def)

lemma rice_plot_legume_free: "legume_free water_dataset [(0, [(DAN_JI, rice_cell)])]"
  by (simp add: legume_free_def all_cells_def rice_not_legume rice_cell_def)

lemma rice_plan_rotation_penalty: "rotation_penalty water_dataset rice_plan = 100000"
  using scan_cells_single[of rice_cell]
  by (simp add: rotation_penalty_def bean_planted_def water_bean_crops rice_plan_def)

lemma rice_plan_rotation_check:
  "validate_rotation rice_plan (crop_info water_dataset) 1 = Inl KeyError"
  using scan_cells_single[of rice_cell]
  by (simp add: rice_plan_def) (simp add: rice_cell_def water_dataset_def)

lemma paren_land_info:
  "land_info paren_dataset = [(''C1'', \<lparr>ltype = SHAN_PO_DI, larea = 1\<rparr>)]"
  by (simp add: paren_dataset_def)

lemma paren_grain: "grain_crops paren_dataset = crop_info paren_dataset"
  by (simp add: grain_crops_def paren_dataset_def ustr_defs sublist_Cons_right prefix_code)

lemma paren_regenerate:
  "regenerate paren_dataset SHAN_PO_DI 1 [0] = ([(DAN_JI, soy_cell)], [])"
  by (simp add: regenerate_def plant_def paren_grain random_choice_def next_rand_def
      soy_cell_def)
    (simp add: paren_dataset_def)

lemma paren_generate: "generate_initial_solution paren_dataset 1 [0] = paren_plan"
  by (simp add: generate_initial_solution_def py_range_def paren_land_info paren_regenerate
      paren_plan_def)

lemma paren_bean_crops: "bean_crops paren_dataset = [1]"
  by (simp add: bean_crops_def paren_dataset_def ustr_defs sublist_Cons_right prefix_code)

lemma paren_is_legume: "is_legume paren_dataset 1"
  by (simp add: is_legume_def paren_dataset_def ustr_defs sublist_Cons_right prefix_code)

lemma paren_known: "crops_known paren_dataset paren_plan"
  by (simp add: crops_known_def paren_plan_def all_cells_def soy_cell_def paren_dataset_def)

lemma paren_plot_has_legume: "\<not> legume_free paren_dataset [(0, [(DAN_JI, soy_cell)])]"
  by (simp add: legume_free_def all_cells_def soy_cell_def paren_is_legume)

lemma paren_rotation_penalty: "rotation_penalty paren_dataset paren_plan = 0"
  using scan_cells_single[of soy_cell]
  by (simp add: rotation_penalty_def bean_planted_def paren_bean_crops paren_plan_def
      soy_cell_def)

lemma paren_rotation_check:
  "validate_rotation paren_plan (crop_info paren_dataset) 1 = Inr False"
  using scan_cells_single[of soy_cell]
  by (simp add: paren_plan_def) (simp add: soy_cell_def paren_dataset_def ustr_defs)

text \<open>
  Claim C7, at two failing inputs. First, the plan that the generator builds for one
  irrigated plot when the dataset has no crop 18: its plot has zero legume cells and the
  rotation rule of the penalty adds 100000 once, but \<^verbatim>\<open>validate_rotation\<close> raises
  \<^verbatim>\<open>KeyError\<close> at \<^verbatim>\<open>crop_info[crop_id]\<close> instead of returning \<^verbatim>\<open>False\<close>. Second, the
  plan that the generator builds for one hillside plot when the only crop has the
  grain-legume tag written with ASCII parentheses: the tag contains the legume marker, so
  the crop is a legume, \<^verbatim>\<open>bean_crops\<close> has it and the rotation rule of the penalty adds
  nothing; but \<^verbatim>\<open>validate_rotation\<close>, which compares the tag with two literals, does
  not count the crop and returns \<^verbatim>\<open>False\<close> for a plan whose only plot plants a legume.
\<close>

theorem rotation_check_diverges:
  "generate_initial_solution water_dataset 1 [0] = rice_plan
   \<and> legume_free water_dataset [(0, [(DAN_JI, rice_cell)])]
   \<and> rotation_penalty water_dataset rice_plan = 100000
   \<and> validate_rotation rice_plan (crop_info water_dataset) 1 = Inl KeyError
   \<and> generate_initial_solution paren_dataset 1 [0] = paren_plan
   \<and> crops_known paren_dataset paren_plan
   \<and> is_legume paren_dataset 1
   \<and> 1 \<in> set (bean_crops paren_dataset)
   \<and> \<not> legume_free paren_dataset [(0, [(DAN_JI, soy_cell)])]
   \<and> rotation_penalty paren_dataset paren_plan = 0
   \<and> validate_rotation paren_plan (crop_info paren_dataset) 1 = Inr False"
  by (simp add: water_generate_rice rice_plot_legume_free rice_plan_rotation_penalty
      rice_plan_rotation_check paren_generate paren_known paren_is_legume paren_bean_crops
      paren_plot_has_legume paren_rotation_penalty paren_rotation_check)

end
